theory Spec2Isabelle
  imports Complex_Main
begin

section \<open>Fraud detection service: the wallet analysis path of main.py\<close>

text \<open>
  The development follows \<^verbatim>\<open>main.py\<close>: the transaction simulator
  \<^verbatim>\<open>get_wallet_transactions\<close>, the forward pass of \<^verbatim>\<open>FraudGNN\<close> and the
  request handler \<^verbatim>\<open>analyze_wallet\<close>.

  Conventions. Python strings are \<open>string\<close>, Python integers are \<open>int\<close>, lengths and
  loop indices are \<open>nat\<close>. A Python float is read as the real number it denotes, so the
  literals \<^verbatim>\<open>0.85\<close>, \<^verbatim>\<open>0.60\<close>, \<^verbatim>\<open>0.8\<close> and \<^verbatim>\<open>0.1\<close> are the decimal fractions and
  the arithmetic of the tensor library is exact arithmetic. Exceptions are values of the
  type \<open>exn\<close>; a computation that may raise returns \<open>exn + 'a\<close>.
\<close>

subsection \<open>Library collaborators\<close>

text \<open>
  \<^verbatim>\<open>hashlib.md5\<close> and the module \<^verbatim>\<open>random\<close> are not code of the service. They enter the
  model as a record of operations over a generator state \<open>'g\<close>, the hidden global state of
  the module \<^verbatim>\<open>random\<close>:
  \<^item> \<open>md5_int s\<close> is \<^verbatim>\<open>int(hashlib.md5(s.encode()).hexdigest(), 16)\<close>;
  \<^item> \<open>seed n\<close> is the generator state that \<^verbatim>\<open>random.seed(n)\<close> installs;
  \<^item> \<open>randint lo hi g\<close> is the value that \<^verbatim>\<open>random.randint(lo, hi)\<close> returns in state
    \<open>g\<close>, with the state it leaves behind.
\<close>

record 'g pylib =
  md5_int :: "string \<Rightarrow> int"
  seed :: "int \<Rightarrow> 'g"
  randint :: "int \<Rightarrow> int \<Rightarrow> 'g \<Rightarrow> int \<times> 'g"

text \<open>
  The documented contract of \<^verbatim>\<open>random.randint(a, b)\<close>: an integer \<open>N\<close> with
  \<open>a \<le> N \<le> b\<close>.
\<close>

definition randint_in_range :: "'g pylib \<Rightarrow> bool" where
  "randint_in_range L \<longleftrightarrow>
     (\<forall>lo hi g. lo \<le> hi \<longrightarrow> lo \<le> fst (randint L lo hi g) \<and> fst (randint L lo hi g) \<le> hi)"

subsection \<open>Strings\<close>

text \<open>The Python test \<^verbatim>\<open>sub in s\<close> on strings: \<open>sub\<close> occurs in \<open>s\<close> as a contiguous run.\<close>

fun starts_with :: "string \<Rightarrow> string \<Rightarrow> bool" where
  "starts_with [] s = True"
| "starts_with (c # cs) [] = False"
| "starts_with (c # cs) (d # ds) = (c = d \<and> starts_with cs ds)"

fun str_in :: "string \<Rightarrow> string \<Rightarrow> bool" where
  "str_in sub [] = (sub = [])"
| "str_in sub (d # ds) = (starts_with sub (d # ds) \<or> str_in sub ds)"

text \<open>The decimal rendering of a non-negative integer, as an f-string prints it.\<close>

definition digit_char :: "nat \<Rightarrow> char" where
  "digit_char d = ''0123456789'' ! d"

fun str_nat :: "nat \<Rightarrow> string" where
  "str_nat n = (if n < 10 then [digit_char n] else str_nat (n div 10) @ [digit_char (n mod 10)])"

declare str_nat.simps [simp del]

subsection \<open>Transaction simulator\<close>

record txn =
  sender :: string
  receiver :: string
  amount :: int

text \<open>
  The list comprehension
  \<^verbatim>\<open>[{"sender": .., "receiver": .., "amount": random.randint(lo, hi)} for i in range(n)]\<close>:
  one draw per element, in the order of \<open>i\<close>. \<open>mk i a\<close> builds the element of index \<open>i\<close>
  from its drawn amount; the first argument after the bounds is the current index.
\<close>

fun comprehension ::
  "'g pylib \<Rightarrow> (nat \<Rightarrow> int \<Rightarrow> txn) \<Rightarrow> int \<Rightarrow> int \<Rightarrow> nat \<Rightarrow> nat \<Rightarrow> 'g \<Rightarrow> txn list \<times> 'g" where
  "comprehension L mk lo hi i 0 g = ([], g)"
| "comprehension L mk lo hi i (Suc n) g =
     (case randint L lo hi g of (a, g1) \<Rightarrow>
        (case comprehension L mk lo hi (Suc i) n g1 of (ts, g2) \<Rightarrow> (mk i a # ts, g2)))"

text \<open>
  \<^verbatim>\<open>get_wallet_transactions(wallet_address, asset_id)\<close>. The argument \<open>g0\<close> is the state of
  the generator when the function is called; the function returns the transactions and the
  state it leaves. \<^verbatim>\<open>range(txn_count)\<close> is empty for a count below one, hence \<open>nat\<close>.
\<close>

definition get_wallet_transactions ::
  "'g pylib \<Rightarrow> 'g \<Rightarrow> string \<Rightarrow> int \<Rightarrow> txn list \<times> 'g" where
  "get_wallet_transactions L g0 wallet_address asset_id =
     (let g = seed L (md5_int L wallet_address mod 2 ^ 32) in
      if str_in ''MULE'' wallet_address then
        (case randint L 15 30 g of (txn_count, g1) \<Rightarrow>
           comprehension L
             (\<lambda>i a. \<lparr>sender = wallet_address, receiver = ''HUB_COLLECTOR_01'', amount = a\<rparr>)
             100 500 0 (nat txn_count) g1)
      else if str_in ''HUB'' wallet_address then
        (case randint L 20 40 g of (txn_count, g1) \<Rightarrow>
           comprehension L
             (\<lambda>i a. \<lparr>sender = ''MULE_'' @ str_nat (i mod 10), receiver = wallet_address,
                     amount = a\<rparr>)
             100 500 0 (nat txn_count) g1)
      else if str_in ''STU'' wallet_address then
        (case randint L 1 5 g of (txn_count, g1) \<Rightarrow>
           comprehension L
             (\<lambda>i a. \<lparr>sender = ''GOVT_SCHOLARSHIP_DEPT'', receiver = wallet_address,
                     amount = a\<rparr>)
             1000 5000 0 (nat txn_count) g1)
      else if str_in ''GOVT'' wallet_address then
        (case randint L 40 60 g of (txn_count, g1) \<Rightarrow>
           comprehension L
             (\<lambda>i a. \<lparr>sender = wallet_address, receiver = ''STU_'' @ str_nat (i mod 50),
                     amount = a\<rparr>)
             1000 5000 0 (nat txn_count) g1)
      else
        (case randint L 1 3 g of (txn_count, g1) \<Rightarrow>
           comprehension L
             (\<lambda>i a. \<lparr>sender = wallet_address, receiver = ''UNKNOWN_RECIPIENT'', amount = a\<rparr>)
             100 1000 0 (nat txn_count) g1))"

subsection \<open>Exceptions and HTTP results\<close>

text \<open>
  The exceptions the handler can see. \<open>HTTPException status detail\<close> is the framework's
  exception, a subclass of \<^verbatim>\<open>Exception\<close>; \<open>ValueError\<close> is what a label encoder raises for
  an unseen label; \<open>IndexError\<close> is raised by an index out of range; \<open>OtherError\<close> stands
  for any other subclass of \<^verbatim>\<open>Exception\<close> a collaborator raises.
\<close>

datatype exn =
    HTTPException nat string
  | ValueError string
  | IndexError
  | OtherError string

text \<open>\<^verbatim>\<open>str(e)\<close>; for the framework's exception the text is \<^verbatim>\<open>"{status_code}: {detail}"\<close>.\<close>

fun str_exn :: "exn \<Rightarrow> string" where
  "str_exn (HTTPException status detail) = str_nat status @ '': '' @ detail"
| "str_exn (ValueError msg) = msg"
| "str_exn IndexError = ''list index out of range''"
| "str_exn (OtherError msg) = msg"

text \<open>Python indexing \<^verbatim>\<open>xs[i]\<close> with a non-negative literal index.\<close>

definition index :: "'a list \<Rightarrow> nat \<Rightarrow> exn + 'a" where
  "index xs i = (if i < length xs then Inr (xs ! i) else Inl IndexError)"

subsection \<open>Model definition\<close>

type_synonym tensor = "real list list"

text \<open>
  \<^verbatim>\<open>class FraudGNN\<close>. The two \<^verbatim>\<open>SAGEConv\<close> layers belong to the graph library and carry the
  loaded weights: each is a function of the feature matrix and the edge index.
  \<open>training\<close> is the module's mode flag and \<open>dropout_train\<close> what \<^verbatim>\<open>F.dropout\<close> does
  to a matrix when that flag is set.
\<close>

record FraudGNN =
  conv1 :: "tensor \<Rightarrow> nat list list \<Rightarrow> tensor"
  conv2 :: "tensor \<Rightarrow> nat list list \<Rightarrow> tensor"
  training :: bool
  dropout_train :: "tensor \<Rightarrow> tensor"

definition relu :: "tensor \<Rightarrow> tensor" where
  "relu x = map (map (\<lambda>v. max 0 v)) x"

text \<open>\<^verbatim>\<open>F.dropout(x, p=0.5, training=self.training)\<close>: the identity outside training.\<close>

definition dropout :: "FraudGNN \<Rightarrow> tensor \<Rightarrow> tensor" where
  "dropout m x = (if training m then dropout_train m x else x)"

text \<open>\<^verbatim>\<open>F.log_softmax(x, dim=1)\<close>: along each row.\<close>

definition log_softmax :: "tensor \<Rightarrow> tensor" where
  "log_softmax x = map (\<lambda>row. map (\<lambda>v. v - ln (sum_list (map exp row))) row) x"

definition forward :: "FraudGNN \<Rightarrow> tensor \<Rightarrow> nat list list \<Rightarrow> tensor" where
  "forward m x edge_index =
     (let x1 = relu (conv1 m x edge_index);
          x2 = dropout m x1;
          x3 = conv2 m x2 edge_index
      in log_softmax x3)"

subsection \<open>Application state and request schema\<close>

text \<open>
  The global \<^verbatim>\<open>state\<close> after \<^verbatim>\<open>load_resources\<close>: \<open>encoder\<close> is \<open>None\<close> when
  \<^verbatim>\<open>label_encoder.pkl\<close> was not found, otherwise the \<^verbatim>\<open>transform\<close> method of the unpickled
  encoder, from a list of labels to their indices.
\<close>

record app_state =
  encoder :: "(string list \<Rightarrow> exn + nat list) option"
  model :: FraudGNN

record FraudCheck =
  wallet_address :: string
  asset_id :: int

text \<open>The background task \<^verbatim>\<open>trigger_blockchain_freeze(wallet, asset_id)\<close>, as scheduled.\<close>

datatype task = Trigger_blockchain_freeze string int

record response =
  address :: string
  risk_score :: real
  decision :: string
  monitored_asset :: int

subsection \<open>The handler, step by step\<close>

text \<open>Step B: the encoder check and the lookup of the wallet.\<close>

definition resolve_wallet :: "app_state \<Rightarrow> string \<Rightarrow> exn + nat" where
  "resolve_wallet st addr =
     (case encoder st of
        None \<Rightarrow> Inl (HTTPException 503 ''Encoder not loaded. Model not ready.'')
      | Some transform \<Rightarrow>
          (case transform [addr] of
             Inl (ValueError msg) \<Rightarrow>
               Inl (HTTPException 404 ''Wallet address not found in historical graph data.'')
           | Inl e \<Rightarrow> Inl e
           | Inr idxs \<Rightarrow> index idxs 0))"

text \<open>Step C: feature extraction from the transaction list.\<close>

definition in_d :: "txn list \<Rightarrow> string \<Rightarrow> nat" where
  "in_d txns addr = length (filter (\<lambda>t. receiver t = addr) txns)"

definition out_d :: "txn list \<Rightarrow> string \<Rightarrow> nat" where
  "out_d txns addr = length (filter (\<lambda>t. sender t = addr) txns)"

definition total_amount :: "txn list \<Rightarrow> string \<Rightarrow> int" where
  "total_amount txns addr = sum_list (map amount (filter (\<lambda>t. sender t = addr) txns))"

definition avg_amount :: "txn list \<Rightarrow> string \<Rightarrow> real" where
  "avg_amount txns addr =
     (if out_d txns addr > 0
      then real_of_int (total_amount txns addr) / real (max (out_d txns addr) 1)
      else 0)"

definition structuring_score :: "txn list \<Rightarrow> string \<Rightarrow> real" where
  "structuring_score txns addr =
     (if out_d txns addr > 0 \<and> avg_amount txns addr < 500 then 0.8 else 0.1)"

definition account_age :: real where
  "account_age = 30"

definition wallet_features :: "txn list \<Rightarrow> string \<Rightarrow> real list" where
  "wallet_features txns addr =
     [real (in_d txns addr), real (out_d txns addr), avg_amount txns addr,
      structuring_score txns addr, account_age]"

definition dummy_features :: "real list" where
  "dummy_features = [0, 0, 0, 0, 0]"

definition edge_index :: "nat list list" where
  "edge_index = [[0, 1], [1, 0]]"

text \<open>Step D: inference; \<^verbatim>\<open>float(probs[0][1])\<close> of the exponentiated output.\<close>

definition run_inference :: "FraudGNN \<Rightarrow> tensor \<Rightarrow> exn + real" where
  "run_inference m features =
     (let output = forward m features edge_index;
          probs = map (map exp) output
      in case index probs 0 of
           Inl e \<Rightarrow> Inl e
         | Inr row \<Rightarrow> index row 1)"

text \<open>Step E: the decision and the tasks added to \<^verbatim>\<open>background_tasks\<close>.\<close>

definition determine_action :: "real \<Rightarrow> FraudCheck \<Rightarrow> string \<times> task list" where
  "determine_action score data =
     (if score > 0.85 then
        (''FRAUD_HIGH'', [Trigger_blockchain_freeze (wallet_address data) (asset_id data)])
      else if score > 0.60 then (''SUSPICIOUS_REVIEW'', [])
      else (''CLEAR'', []))"

text \<open>
  \<^verbatim>\<open>round(x, ndigits)\<close> on a float: the nearest multiple of \<open>10 ^ -ndigits\<close>, a tie going
  to the even multiple.
\<close>

definition round_half_even :: "real \<Rightarrow> int" where
  "round_half_even x =
     (let f = \<lfloor>x\<rfloor>; d = x - of_int f
      in if d < 1 / 2 then f
         else if d > 1 / 2 then f + 1
         else if even f then f else f + 1)"

definition py_round :: "real \<Rightarrow> nat \<Rightarrow> real" where
  "py_round x ndigits = of_int (round_half_even (x * 10 ^ ndigits)) / 10 ^ ndigits"

text \<open>
  The body of the \<^verbatim>\<open>try\<close> block of \<^verbatim>\<open>analyze_wallet\<close>. The result pairs what the body
  returns or raises with the generator state it leaves.
\<close>

definition analyze_wallet_body ::
  "'g pylib \<Rightarrow> app_state \<Rightarrow> 'g \<Rightarrow> FraudCheck \<Rightarrow> (exn + response \<times> task list) \<times> 'g" where
  "analyze_wallet_body L st g0 data =
     (case get_wallet_transactions L g0 (wallet_address data) (asset_id data) of
        (txns, g) \<Rightarrow>
          (case resolve_wallet st (wallet_address data) of
             Inl e \<Rightarrow> (Inl e, g)
           | Inr wallet_idx \<Rightarrow>
               (let features = [wallet_features txns (wallet_address data), dummy_features]
                in case run_inference (model st) features of
                     Inl e \<Rightarrow> (Inl e, g)
                   | Inr score \<Rightarrow>
                       (case determine_action score data of
                          (dec, tasks) \<Rightarrow>
                            (Inr (\<lparr>address = wallet_address data,
                                   risk_score = py_round score 4,
                                   decision = dec,
                                   monitored_asset = asset_id data\<rparr>, tasks), g)))))"

text \<open>
  \<^verbatim>\<open>analyze_wallet\<close>: the body inside \<^verbatim>\<open>try\<close>, and the handler
  \<^verbatim>\<open>except Exception as e: raise HTTPException(status_code=500, detail=str(e))\<close>, which
  receives every exception the body raises.
\<close>

definition analyze_wallet ::
  "'g pylib \<Rightarrow> app_state \<Rightarrow> 'g \<Rightarrow> FraudCheck \<Rightarrow> (exn + response \<times> task list) \<times> 'g" where
  "analyze_wallet L st g0 data =
     (case analyze_wallet_body L st g0 data of
        (Inl e, g) \<Rightarrow> (Inl (HTTPException 500 (str_exn e)), g)
      | (Inr r, g) \<Rightarrow> (Inr r, g))"

text \<open>
  The status line the framework sends: 200 for a returned value, the exception's own
  status for an \<open>HTTPException\<close>, 500 for anything else that escapes.
\<close>

fun status_code :: "exn + 'a \<Rightarrow> nat" where
  "status_code (Inr r) = 200"
| "status_code (Inl (HTTPException status detail)) = status"
| "status_code (Inl e) = 500"

subsection \<open>A concrete environment for running the model\<close>

text \<open>
  A small generator that honours the contract of \<open>randint\<close>, an encoder over four known
  labels, and a network whose layers have zero weights. They serve to evaluate the
  definitions above on concrete requests.
\<close>

definition lcg_lib :: "int pylib" where
  "lcg_lib =
     \<lparr>md5_int = (\<lambda>s. sum_list (map of_char s)),
      seed = (\<lambda>n. n),
      randint = (\<lambda>lo hi g. (lo + g mod (hi - lo + 1), (5 * g + 3) mod 64))\<rparr>"

definition known_labels :: "string list" where
  "known_labels = [''GOVT_SCHOLARSHIP_DEPT'', ''HUB_COLLECTOR_01'', ''MULE_0'', ''STU_0'']"

fun label_index :: "string list \<Rightarrow> string \<Rightarrow> nat option" where
  "label_index [] s = None"
| "label_index (c # cs) s =
     (if c = s then Some 0 else map_option Suc (label_index cs s))"

fun label_transform :: "string list \<Rightarrow> string list \<Rightarrow> exn + nat list" where
  "label_transform classes [] = Inr []"
| "label_transform classes (s # ss) =
     (case label_index classes s of
        None \<Rightarrow> Inl (ValueError ''y contains previously unseen labels'')
      | Some i \<Rightarrow>
          (case label_transform classes ss of Inl e \<Rightarrow> Inl e | Inr js \<Rightarrow> Inr (i # js)))"

definition zero_gnn :: FraudGNN where
  "zero_gnn =
     \<lparr>conv1 = (\<lambda>x e. map (\<lambda>row. replicate 16 0) x),
      conv2 = (\<lambda>x e. map (\<lambda>row. replicate 2 0) x),
      training = False,
      dropout_train = (\<lambda>x. x)\<rparr>"

definition demo_state :: app_state where
  "demo_state = \<lparr>encoder = Some (label_transform known_labels), model = zero_gnn\<rparr>"

definition no_encoder_state :: app_state where
  "no_encoder_state = \<lparr>encoder = None, model = zero_gnn\<rparr>"

text \<open>
  A network whose second layer returns the logits \<open>(0, ln 9)\<close> for every node: its
  probability for class 1 is \<open>9 / 10\<close>.
\<close>

definition alert_gnn :: FraudGNN where
  "alert_gnn =
     \<lparr>conv1 = (\<lambda>x e. map (\<lambda>row. replicate 16 0) x),
      conv2 = (\<lambda>x e. map (\<lambda>row. [0, ln 9]) x),
      training = False,
      dropout_train = (\<lambda>x. x)\<rparr>"

definition alert_state :: app_state where
  "alert_state = \<lparr>encoder = Some (label_transform known_labels), model = alert_gnn\<rparr>"

section \<open>Properties of the transaction simulator\<close>

subsection \<open>The list comprehension and the degree counts\<close>

lemma comprehension_length:
  "length (fst (comprehension L mk lo hi i n g)) = n"
  by (induction n arbitrary: i g) (simp_all add: case_prod_beta)

lemma comprehension_elems:
  "t \<in> set (fst (comprehension L mk lo hi i n g)) \<Longrightarrow> \<exists>j a. t = mk j a"
  by (induction n arbitrary: i g) (auto simp: case_prod_beta)

lemma comprehension_amounts:
  assumes "randint_in_range L" "lo \<le> hi"
  shows "t \<in> set (fst (comprehension L mk lo hi i n g)) \<Longrightarrow> \<exists>j a. t = mk j a \<and> lo \<le> a \<and> a \<le> hi"
proof (induction n arbitrary: i g)
  case 0
  then show ?case by simp
next
  case (Suc n)
  from assms have a: "lo \<le> fst (randint L lo hi g)" "fst (randint L lo hi g) \<le> hi"
    unfolding randint_in_range_def by blast+
  from Suc.prems have "t = mk i (fst (randint L lo hi g)) \<or>
      t \<in> set (fst (comprehension L mk lo hi (Suc i) n (snd (randint L lo hi g))))"
    by (simp add: case_prod_beta)
  then show ?case using a Suc.IH by blast
qed

lemma lcg_in_range: "randint_in_range lcg_lib"
proof -
  have "lo \<le> lo + g mod (hi - lo + 1) \<and> lo + g mod (hi - lo + 1) \<le> hi"
    if "lo \<le> hi" for lo hi g :: int
  proof -
    from that have "0 < hi - lo + 1" by simp
    then have "0 \<le> g mod (hi - lo + 1)" "g mod (hi - lo + 1) < hi - lo + 1"
      by (rule pos_mod_sign, rule pos_mod_bound)
    then show ?thesis by linarith
  qed
  then show ?thesis unfolding randint_in_range_def lcg_lib_def by simp
qed

lemma comprehension_step:
  "0 < n \<Longrightarrow> comprehension L mk lo hi i n g =
     (case randint L lo hi g of (a, g1) \<Rightarrow>
        (case comprehension L mk lo hi (Suc i) (n - 1) g1 of (ts, g2) \<Rightarrow> (mk i a # ts, g2)))"
  by (cases n) simp_all

lemma stu_not_govt: "str_in ''STU'' a \<Longrightarrow> a \<noteq> ''GOVT_SCHOLARSHIP_DEPT''"
  by auto


lemma in_d_all:
  "(\<And>t. t \<in> set txns \<Longrightarrow> receiver t = a) \<Longrightarrow> in_d txns a = length txns"
  unfolding in_d_def by (induction txns) simp_all

lemma out_d_all:
  "(\<And>t. t \<in> set txns \<Longrightarrow> sender t = a) \<Longrightarrow> out_d txns a = length txns"
  unfolding out_d_def by (induction txns) simp_all

lemma out_d_none:
  "(\<And>t. t \<in> set txns \<Longrightarrow> sender t \<noteq> a) \<Longrightarrow> out_d txns a = 0"
  unfolding out_d_def by (induction txns) simp_all

lemma count_bounds:
  assumes "randint_in_range L" "lo \<le> hi"
  shows "nat lo \<le> nat (fst (randint L lo hi g)) \<and> nat (fst (randint L lo hi g)) \<le> nat hi"
  using assms unfolding randint_in_range_def by (meson nat_mono)

lemma branch_bounds:
  assumes R: "randint_in_range L"
    and c: "clo \<le> chi" "1 \<le> clo" "chi \<le> 60"
    and a: "100 \<le> lo" "lo \<le> hi" "hi \<le> 5000"
    and mk: "\<And>i v. amount (mk i v) = v \<and> (sender (mk i v) = w \<or> receiver (mk i v) = w)"
    and txns: "txns = fst (case randint L clo chi g of (n, g1) \<Rightarrow> comprehension L mk lo hi 0 (nat n) g1)"
  shows "txns \<noteq> [] \<and> length txns \<le> 60 \<and>
    (\<forall>t\<in>set txns. 100 \<le> amount t \<and> amount t \<le> 5000 \<and> (sender t = w \<or> receiver t = w))"
proof -
  obtain n g1 where r: "randint L clo chi g = (n, g1)" by (cases "randint L clo chi g")
  from count_bounds [OF R c(1), of g] r have n: "nat clo \<le> nat n" "nat n \<le> nat chi" by simp_all
  from txns r have t: "txns = fst (comprehension L mk lo hi 0 (nat n) g1)" by simp
  then have len: "length txns = nat n" by (simp add: comprehension_length)
  from n c have "1 \<le> nat n" "nat n \<le> 60" by linarith+
  with len have l: "txns \<noteq> []" "length txns \<le> 60" by auto
  have "100 \<le> amount t \<and> amount t \<le> 5000 \<and> (sender t = w \<or> receiver t = w)" if "t \<in> set txns" for t
  proof -
    from that t obtain j v where "t = mk j v" "lo \<le> v" "v \<le> hi"
      using comprehension_amounts [OF R a(2), of t mk] by blast
    with a mk show ?thesis by (metis order_trans)
  qed
  with l show ?thesis by blast
qed

lemma unknown_recipient_matches_no_pattern:
  "\<not> str_in ''MULE'' ''UNKNOWN_RECIPIENT''" "\<not> str_in ''HUB'' ''UNKNOWN_RECIPIENT''"
  "\<not> str_in ''STU'' ''UNKNOWN_RECIPIENT''" "\<not> str_in ''GOVT'' ''UNKNOWN_RECIPIENT''"
  by simp_all

subsection \<open>Determinism\<close>

text \<open>
  C6. The transaction simulator is deterministic. Calling \<open>get_wallet_transactions\<close> a
  second time with the same address, in the generator state the first call left, returns
  the same transaction list; and whatever the state of the generator at the call, the
  result is the same, because the first action of the function is to seed the generator
  from the hash of the address.
\<close>

theorem simulator_deterministic:
  "fst (get_wallet_transactions L (snd (get_wallet_transactions L g a x)) a x)
     = fst (get_wallet_transactions L g a x)
   \<and> get_wallet_transactions L g1 a x = get_wallet_transactions L g2 a x"
  by (simp add: get_wallet_transactions_def)

text \<open>
  C8. The output of \<open>get_wallet_transactions\<close> depends on the wallet address only: two
  calls with the same address and different asset ids return the same transaction list
  (and leave the same generator state).
\<close>

theorem asset_id_irrelevant:
  "get_wallet_transactions L g a x1 = get_wallet_transactions L g a x2"
  by (simp add: get_wallet_transactions_def)

subsection \<open>Bounds on the generated transactions\<close>

text \<open>
  C9. For every wallet address, \<open>get_wallet_transactions\<close> returns a non-empty list of at
  most 60 transactions, every amount lies between 100 and 5000, and every transaction has
  the queried address as its sender or as its receiver. The generator is any one that
  honours the contract of \<^verbatim>\<open>random.randint\<close>.
\<close>

theorem simulator_bounds:
  fixes L :: "'g pylib" and g :: 'g and a :: string and x :: int
  assumes R: "randint_in_range L"
  defines "txns \<equiv> fst (get_wallet_transactions L g a x)"
  shows "txns \<noteq> [] \<and> length txns \<le> 60 \<and>
    (\<forall>t\<in>set txns. 100 \<le> amount t \<and> amount t \<le> 5000 \<and> (sender t = a \<or> receiver t = a))"
proof -
  consider (mule) "str_in ''MULE'' a"
    | (hub) "\<not> str_in ''MULE'' a" "str_in ''HUB'' a"
    | (stu) "\<not> str_in ''MULE'' a" "\<not> str_in ''HUB'' a" "str_in ''STU'' a"
    | (govt) "\<not> str_in ''MULE'' a" "\<not> str_in ''HUB'' a" "\<not> str_in ''STU'' a" "str_in ''GOVT'' a"
    | (other) "\<not> str_in ''MULE'' a" "\<not> str_in ''HUB'' a" "\<not> str_in ''STU'' a" "\<not> str_in ''GOVT'' a"
    by blast
  then show ?thesis
  proof cases
    case mule
    show ?thesis
      by (rule branch_bounds [OF R, where clo = 15 and chi = 30 and lo = 100 and hi = 500])
        (simp_all add: txns_def get_wallet_transactions_def mule)
  next
    case hub
    show ?thesis
      by (rule branch_bounds [OF R, where clo = 20 and chi = 40 and lo = 100 and hi = 500])
        (simp_all add: txns_def get_wallet_transactions_def hub)
  next
    case stu
    show ?thesis
      by (rule branch_bounds [OF R, where clo = 1 and chi = 5 and lo = 1000 and hi = 5000])
        (simp_all add: txns_def get_wallet_transactions_def stu)
  next
    case govt
    show ?thesis
      by (rule branch_bounds [OF R, where clo = 40 and chi = 60 and lo = 1000 and hi = 5000])
        (simp_all add: txns_def get_wallet_transactions_def govt)
  next
    case other
    show ?thesis
      by (rule branch_bounds [OF R, where clo = 1 and chi = 3 and lo = 100 and hi = 1000])
        (simp_all add: txns_def get_wallet_transactions_def other)
  qed
qed

theorem simulator_bounds_witness:
  "randint_in_range lcg_lib
   \<and> fst (get_wallet_transactions lcg_lib 0 ''STU_0'' 12345) \<noteq> []
   \<and> length (fst (get_wallet_transactions lcg_lib 0 ''STU_0'' 12345)) \<le> 60
   \<and> list_all (\<lambda>t. 100 \<le> amount t \<and> amount t \<le> 5000
        \<and> (sender t = ''STU_0'' \<or> receiver t = ''STU_0''))
       (fst (get_wallet_transactions lcg_lib 0 ''STU_0'' 12345))"
  using simulator_bounds [OF lcg_in_range, of 0 "''STU_0''" 12345] lcg_in_range
  by (simp add: list_all_iff)

subsection \<open>The address UNKNOWN_RECIPIENT\<close>

text \<open>
  C10. The address \<^verbatim>\<open>"UNKNOWN_RECIPIENT"\<close> matches no pattern and takes the default
  branch, whose receiver is \<^verbatim>\<open>"UNKNOWN_RECIPIENT"\<close> too: every generated transaction has
  the address as sender and as receiver, so \<open>in_d\<close> and \<open>out_d\<close> both equal the number of
  transactions.
\<close>

theorem unknown_recipient_self_loops:
  fixes L :: "'g pylib" and g :: 'g and x :: int
  defines "txns \<equiv> fst (get_wallet_transactions L g ''UNKNOWN_RECIPIENT'' x)"
  shows "(\<forall>t\<in>set txns. sender t = ''UNKNOWN_RECIPIENT'' \<and> receiver t = ''UNKNOWN_RECIPIENT'')
     \<and> in_d txns ''UNKNOWN_RECIPIENT'' = length txns
     \<and> out_d txns ''UNKNOWN_RECIPIENT'' = length txns"
proof -
  let ?a = "''UNKNOWN_RECIPIENT''"
  let ?mk = "\<lambda>(i::nat) v. \<lparr>sender = ?a, receiver = ''UNKNOWN_RECIPIENT'', amount = v\<rparr>"
  obtain c g1 where r: "randint L 1 3 (seed L (md5_int L ?a mod 2 ^ 32)) = (c, g1)"
    by (cases "randint L 1 3 (seed L (md5_int L ?a mod 2 ^ 32))")
  have txns: "txns = fst (comprehension L ?mk 100 1000 0 (nat c) g1)"
    unfolding txns_def get_wallet_transactions_def Let_def
    using unknown_recipient_matches_no_pattern r by simp
  have el: "sender t = ?a \<and> receiver t = ?a" if "t \<in> set txns" for t
  proof -
    from that txns obtain j v where "t = ?mk j v"
      using comprehension_elems [of t L ?mk] by blast
    then show ?thesis by simp
  qed
  from el have "in_d txns ?a = length txns" by (intro in_d_all) simp
  moreover from el have "out_d txns ?a = length txns" by (intro out_d_all) simp
  ultimately show ?thesis using el by blast
qed

lemma unknown_recipient_run:
  "length (fst (get_wallet_transactions lcg_lib 0 ''UNKNOWN_RECIPIENT'' 7)) = 2"
  unfolding get_wallet_transactions_def Let_def
  by (simp add: lcg_lib_def comprehension_step)

theorem unknown_recipient_self_loops_witness:
  "list_all (\<lambda>t. sender t = ''UNKNOWN_RECIPIENT'' \<and> receiver t = ''UNKNOWN_RECIPIENT'')
     (fst (get_wallet_transactions lcg_lib 0 ''UNKNOWN_RECIPIENT'' 7))
   \<and> in_d (fst (get_wallet_transactions lcg_lib 0 ''UNKNOWN_RECIPIENT'' 7)) ''UNKNOWN_RECIPIENT'' = 2
   \<and> out_d (fst (get_wallet_transactions lcg_lib 0 ''UNKNOWN_RECIPIENT'' 7)) ''UNKNOWN_RECIPIENT'' = 2"
  using unknown_recipient_self_loops [of lcg_lib 0 7] unknown_recipient_run
  by (simp add: list_all_iff)

subsection \<open>Student wallets\<close>

lemma mule_branch:
  assumes "str_in ''MULE'' a" "t \<in> set (fst (get_wallet_transactions L g a x))"
  shows "sender t = a \<and> receiver t = ''HUB_COLLECTOR_01''"
proof -
  let ?mk = "\<lambda>(i::nat) v. \<lparr>sender = a, receiver = ''HUB_COLLECTOR_01'', amount = v\<rparr>"
  from assms obtain n g1 where "t \<in> set (fst (comprehension L ?mk 100 500 0 n g1))"
    by (auto simp: get_wallet_transactions_def split: prod.splits)
  then obtain j v where "t = ?mk j v" using comprehension_elems [of t L ?mk] by blast
  then show ?thesis by simp
qed

lemma mule_branch_length:
  assumes "str_in ''MULE'' a" "randint_in_range L"
  shows "15 \<le> length (fst (get_wallet_transactions L g a x))"
proof -
  let ?g = "seed L (md5_int L a mod 2 ^ 32)"
  from assms(1) have "length (fst (get_wallet_transactions L g a x)) = nat (fst (randint L 15 30 ?g))"
    by (simp add: get_wallet_transactions_def Let_def comprehension_length case_prod_beta)
  moreover from count_bounds [OF assms(2), of 15 30 ?g] have "15 \<le> nat (fst (randint L 15 30 ?g))"
    by simp
  ultimately show ?thesis by simp
qed

lemma student_branch:
  assumes "str_in ''STU'' a" "\<not> str_in ''MULE'' a" "\<not> str_in ''HUB'' a"
    and "t \<in> set (fst (get_wallet_transactions L g a x))"
  shows "sender t = ''GOVT_SCHOLARSHIP_DEPT'' \<and> receiver t = a"
proof -
  let ?mk = "\<lambda>(i::nat) v. \<lparr>sender = ''GOVT_SCHOLARSHIP_DEPT'', receiver = a, amount = v\<rparr>"
  from assms obtain n g1 where "t \<in> set (fst (comprehension L ?mk 1000 5000 0 n g1))"
    by (auto simp: get_wallet_transactions_def split: prod.splits)
  then obtain j v where "t = ?mk j v" using comprehension_elems [of t L ?mk] by blast
  then show ?thesis by simp
qed

text \<open>
  C3, as the code has it. The patterns are tried in the order MULE, HUB, STU, and the first
  match wins. For every address that contains \<^verbatim>\<open>STU\<close> and contains neither \<^verbatim>\<open>MULE\<close> nor
  \<^verbatim>\<open>HUB\<close>: \<open>in_d\<close> equals the number of generated transactions, every sender is
  \<^verbatim>\<open>GOVT_SCHOLARSHIP_DEPT\<close>, \<open>out_d\<close> is 0, so \<open>avg_amount\<close> is 0 and the structuring score
  is 0.1.
\<close>

theorem student_features:
  fixes L :: "'g pylib" and g :: 'g and a :: string and x :: int
  assumes stu: "str_in ''STU'' a" and first: "\<not> str_in ''MULE'' a" "\<not> str_in ''HUB'' a"
  defines "txns \<equiv> fst (get_wallet_transactions L g a x)"
  shows "in_d txns a = length txns
     \<and> (\<forall>t\<in>set txns. sender t = ''GOVT_SCHOLARSHIP_DEPT'')
     \<and> out_d txns a = 0
     \<and> avg_amount txns a = 0
     \<and> structuring_score txns a = 0.1"
proof -
  have el: "sender t = ''GOVT_SCHOLARSHIP_DEPT'' \<and> receiver t = a" if "t \<in> set txns" for t
    using that unfolding txns_def by (rule student_branch [OF stu first])
  have ne: "a \<noteq> ''GOVT_SCHOLARSHIP_DEPT''" using stu by (rule stu_not_govt)
  have i: "in_d txns a = length txns" using el by (intro in_d_all) simp
  have o: "out_d txns a = 0" using el ne by (intro out_d_none) simp
  from o have "avg_amount txns a = 0" "structuring_score txns a = 0.1"
    by (simp_all add: avg_amount_def structuring_score_def)
  with i o el show ?thesis by blast
qed

lemma student_run:
  "fst (get_wallet_transactions lcg_lib 0 ''STU_0'' 12345) =
     [\<lparr>sender = ''GOVT_SCHOLARSHIP_DEPT'', receiver = ''STU_0'', amount = 1058\<rparr>]"
  unfolding get_wallet_transactions_def Let_def
  by (simp add: lcg_lib_def comprehension_step)

theorem student_features_witness:
  "str_in ''STU'' ''STU_0'' \<and> \<not> str_in ''MULE'' ''STU_0'' \<and> \<not> str_in ''HUB'' ''STU_0''
   \<and> in_d (fst (get_wallet_transactions lcg_lib 0 ''STU_0'' 12345)) ''STU_0'' = 1
   \<and> out_d (fst (get_wallet_transactions lcg_lib 0 ''STU_0'' 12345)) ''STU_0'' = 0
   \<and> avg_amount (fst (get_wallet_transactions lcg_lib 0 ''STU_0'' 12345)) ''STU_0'' = 0
   \<and> structuring_score (fst (get_wallet_transactions lcg_lib 0 ''STU_0'' 12345)) ''STU_0'' = 0.1"
proof -
  have h: "str_in ''STU'' ''STU_0''" "\<not> str_in ''MULE'' ''STU_0''" "\<not> str_in ''HUB'' ''STU_0''"
    by simp_all
  from student_features [OF h, of lcg_lib 0 12345] h show ?thesis
    by (simp add: student_run)
qed

text \<open>
  The same does not hold for every address that contains \<^verbatim>\<open>STU\<close>: where an earlier
  pattern matches too, the earlier branch runs. \<^verbatim>\<open>"MULE_STU"\<close> takes the MULE branch,
  whose transactions are sent by the address itself to \<^verbatim>\<open>HUB_COLLECTOR_01\<close>.
\<close>

theorem student_claim_counterexample:
  "str_in ''STU'' ''MULE_STU''
   \<and> in_d (fst (get_wallet_transactions lcg_lib 0 ''MULE_STU'' 0)) ''MULE_STU''
       \<noteq> length (fst (get_wallet_transactions lcg_lib 0 ''MULE_STU'' 0))
   \<and> sender (hd (fst (get_wallet_transactions lcg_lib 0 ''MULE_STU'' 0)))
       \<noteq> ''GOVT_SCHOLARSHIP_DEPT''"
proof -
  let ?txns = "fst (get_wallet_transactions lcg_lib 0 ''MULE_STU'' 0)"
  have m: "str_in ''MULE'' ''MULE_STU''" by simp
  have "15 \<le> length ?txns"
    using mule_branch_length [OF m lcg_in_range, of 0 0] by simp
  then have ne: "?txns \<noteq> []" by auto
  have el: "sender t = ''MULE_STU'' \<and> receiver t = ''HUB_COLLECTOR_01''" if "t \<in> set ?txns" for t
    using mule_branch [OF m that] .
  have "filter (\<lambda>t. receiver t = ''MULE_STU'') ?txns = []"
    using el by (auto simp: filter_empty_conv)
  then have "in_d ?txns ''MULE_STU'' = 0" by (simp add: in_d_def)
  moreover from ne have "length ?txns \<noteq> 0" by simp
  moreover from ne have "hd ?txns \<in> set ?txns" by simp
  then have "sender (hd ?txns) = ''MULE_STU''" using el by blast
  ultimately show ?thesis by simp
qed

section \<open>Properties of the request handler\<close>

subsection \<open>Structuring score\<close>

text \<open>
  C5. For every transaction list and address, with \<open>out_degree\<close> the number of
  transactions of the list sent by the address, \<open>total_outgoing\<close> the sum of their amounts
  and \<open>avg_outgoing\<close> the quotient of the two (0 when there is none), the structuring score
  is exactly 0.8 when \<open>out_degree > 0\<close> and \<open>avg_outgoing < 500\<close>, and exactly 0.1 in
  every other case, the boundary \<open>avg_outgoing = 500\<close> included. The handler's variables
  \<^verbatim>\<open>out_d\<close>, \<^verbatim>\<open>total_amount\<close> and \<^verbatim>\<open>avg_amount\<close> are these three quantities, so the
  score is 0.8 exactly when the address sent a transaction and the amounts it sent sum to
  less than 500 times their number; the score is the fourth entry of the feature vector.
\<close>

theorem structuring_score_over_list:
  "(let outs = filter (\<lambda>t. sender t = a) txns;
        out_degree = length outs;
        total_outgoing = sum_list (map amount outs);
        avg_outgoing = (if out_degree > 0 then real_of_int total_outgoing / real out_degree else 0)
    in out_d txns a = out_degree
     \<and> total_amount txns a = total_outgoing
     \<and> avg_amount txns a = avg_outgoing
     \<and> (out_degree > 0 \<and> avg_outgoing < 500 \<longrightarrow> structuring_score txns a = 0.8)
     \<and> (\<not> (out_degree > 0 \<and> avg_outgoing < 500) \<longrightarrow> structuring_score txns a = 0.1)
     \<and> (avg_outgoing = 500 \<longrightarrow> structuring_score txns a = 0.1)
     \<and> (structuring_score txns a = 0.8 \<longleftrightarrow> out_degree > 0 \<and> total_outgoing < 500 * int out_degree)
     \<and> (structuring_score txns a = 0.1 \<longleftrightarrow> out_degree = 0 \<or> total_outgoing \<ge> 500 * int out_degree)
     \<and> index (wallet_features txns a) 3 = Inr (structuring_score txns a))"
proof -
  define outs where "outs = filter (\<lambda>t. sender t = a) txns"
  define n where "n = length outs"
  define total where "total = sum_list (map amount outs)"
  have od: "out_d txns a = n"
    by (simp add: out_d_def n_def outs_def)
  have ta: "total_amount txns a = total"
    by (simp add: total_amount_def total_def outs_def)
  have avg: "avg_amount txns a = (if n > 0 then real_of_int total / real n else 0)"
    by (simp add: avg_amount_def od ta)
  have lt: "real_of_int total / real n < 500 \<longleftrightarrow> total < 500 * int n" if "n > 0"
  proof -
    have "real_of_int total / real n < 500 \<longleftrightarrow> real_of_int total < 500 * real n"
      using that by (simp add: pos_divide_less_eq)
    also have "\<dots> \<longleftrightarrow> real_of_int total < real_of_int (500 * int n)"
      by simp
    also have "\<dots> \<longleftrightarrow> total < 500 * int n"
      by (rule of_int_less_iff)
    finally show ?thesis .
  qed
  have score: "structuring_score txns a = (if n > 0 \<and> total < 500 * int n then 0.8 else 0.1)"
    using lt by (auto simp add: structuring_score_def od avg)
  have feat: "index (wallet_features txns a) 3 = Inr (structuring_score txns a)"
    by (simp add: wallet_features_def index_def)
  show ?thesis
    unfolding Let_def outs_def [symmetric] n_def [symmetric] total_def [symmetric]
    using od ta avg score feat lt by auto
qed

theorem structuring_score_over_list_witness:
  "structuring_score
     [\<lparr>sender = ''A'', receiver = ''B'', amount = 300\<rparr>,
      \<lparr>sender = ''A'', receiver = ''B'', amount = 300\<rparr>] ''A'' = 0.8
   \<and> structuring_score
     [\<lparr>sender = ''A'', receiver = ''B'', amount = 300\<rparr>,
      \<lparr>sender = ''C'', receiver = ''A'', amount = 5000\<rparr>] ''A'' = 0.8
   \<and> structuring_score
     [\<lparr>sender = ''A'', receiver = ''B'', amount = 400\<rparr>,
      \<lparr>sender = ''A'', receiver = ''B'', amount = 600\<rparr>] ''A'' = 0.1
   \<and> avg_amount
     [\<lparr>sender = ''A'', receiver = ''B'', amount = 400\<rparr>,
      \<lparr>sender = ''A'', receiver = ''B'', amount = 600\<rparr>] ''A'' = 500
   \<and> structuring_score
     [\<lparr>sender = ''C'', receiver = ''A'', amount = 100\<rparr>,
      \<lparr>sender = ''C'', receiver = ''A'', amount = 200\<rparr>] ''A'' = 0.1"
  using
    structuring_score_over_list
      [of "''A''" "[\<lparr>sender = ''A'', receiver = ''B'', amount = 300\<rparr>,
                    \<lparr>sender = ''A'', receiver = ''B'', amount = 300\<rparr>]"]
    structuring_score_over_list
      [of "''A''" "[\<lparr>sender = ''A'', receiver = ''B'', amount = 300\<rparr>,
                    \<lparr>sender = ''C'', receiver = ''A'', amount = 5000\<rparr>]"]
    structuring_score_over_list
      [of "''A''" "[\<lparr>sender = ''A'', receiver = ''B'', amount = 400\<rparr>,
                    \<lparr>sender = ''A'', receiver = ''B'', amount = 600\<rparr>]"]
    structuring_score_over_list
      [of "''A''" "[\<lparr>sender = ''C'', receiver = ''A'', amount = 100\<rparr>,
                    \<lparr>sender = ''C'', receiver = ''A'', amount = 200\<rparr>]"]
  by (simp add: Let_def)

subsection \<open>Error statuses\<close>

lemma str_nat_404: "str_nat 404 = ''404''"
  by (simp add: str_nat.simps digit_char_def)

lemma str_nat_503: "str_nat 503 = ''503''"
  by (simp add: str_nat.simps digit_char_def)

lemma unknown_wallet_unseen:
  "label_transform known_labels [''UNKNOWN_WALLET_XYZ'']
     = Inl (ValueError ''y contains previously unseen labels'')"
  by (simp add: known_labels_def)

text \<open>
  C1. When the encoder's \<open>transform\<close> raises \<open>ValueError\<close> for the wallet address, the
  body raises \<open>HTTPException 404\<close>; the enclosing \<^verbatim>\<open>except Exception\<close> catches it, since
  \<open>HTTPException\<close> is an \<^verbatim>\<open>Exception\<close>, and raises \<open>HTTPException 500\<close> in its place. The
  response has status 500, with the 404 text as its detail. The model does not occur in
  the result: inference is not attempted.
\<close>

theorem unresolvable_wallet_status:
  assumes "encoder st = Some transform"
    and "transform [wallet_address data] = Inl (ValueError msg)"
  shows "fst (analyze_wallet L st g data)
      = Inl (HTTPException 500 ''404: Wallet address not found in historical graph data.'')
     \<and> status_code (fst (analyze_wallet L st g data)) = 500"
  using assms
  by (simp add: analyze_wallet_def analyze_wallet_body_def resolve_wallet_def str_nat_404
      split: prod.splits)

theorem unresolvable_wallet_status_witness:
  "encoder demo_state = Some (label_transform known_labels)
   \<and> label_transform known_labels [''UNKNOWN_WALLET_XYZ'']
       = Inl (ValueError ''y contains previously unseen labels'')
   \<and> fst (analyze_wallet lcg_lib demo_state 0
            \<lparr>wallet_address = ''UNKNOWN_WALLET_XYZ'', asset_id = 12345\<rparr>)
       = Inl (HTTPException 500 ''404: Wallet address not found in historical graph data.'')
   \<and> status_code (fst (analyze_wallet lcg_lib demo_state 0
            \<lparr>wallet_address = ''UNKNOWN_WALLET_XYZ'', asset_id = 12345\<rparr>)) = 500"
proof -
  have e: "encoder demo_state = Some (label_transform known_labels)"
    by (simp add: demo_state_def)
  have t: "label_transform known_labels
             [wallet_address \<lparr>wallet_address = ''UNKNOWN_WALLET_XYZ'', asset_id = 12345\<rparr>]
           = Inl (ValueError ''y contains previously unseen labels'')"
    using unknown_wallet_unseen by simp
  from unresolvable_wallet_status [OF e t, of lcg_lib 0] e unknown_wallet_unseen
  show ?thesis by simp
qed

text \<open>
  C2. When the encoder is absent, the body raises \<open>HTTPException 503\<close>; the same handler
  catches it and the response has status 500, with the 503 text as its detail.
\<close>

theorem encoder_absent_status:
  assumes "encoder st = None"
  shows "fst (analyze_wallet L st g data)
      = Inl (HTTPException 500 ''503: Encoder not loaded. Model not ready.'')
     \<and> status_code (fst (analyze_wallet L st g data)) = 500"
  using assms
  by (simp add: analyze_wallet_def analyze_wallet_body_def resolve_wallet_def str_nat_503
      split: prod.splits)

theorem encoder_absent_status_witness:
  "encoder no_encoder_state = None
   \<and> fst (analyze_wallet lcg_lib no_encoder_state 0
            \<lparr>wallet_address = ''STU_0'', asset_id = 12345\<rparr>)
       = Inl (HTTPException 500 ''503: Encoder not loaded. Model not ready.'')
   \<and> status_code (fst (analyze_wallet lcg_lib no_encoder_state 0
            \<lparr>wallet_address = ''STU_0'', asset_id = 12345\<rparr>)) = 500"
proof -
  have e: "encoder no_encoder_state = None" by (simp add: no_encoder_state_def)
  from encoder_absent_status [OF e, of lcg_lib 0 "\<lparr>wallet_address = ''STU_0'', asset_id = 12345\<rparr>"] e
  show ?thesis by simp
qed

subsection \<open>Inference\<close>




subsection \<open>Successful requests\<close>

lemma analyze_wallet_success:
  assumes "fst (analyze_wallet L st g data) = Inr (resp, tasks)"
  shows "\<exists>score. run_inference (model st)
            [wallet_features (fst (get_wallet_transactions L g (wallet_address data) (asset_id data)))
               (wallet_address data), dummy_features] = Inr score
          \<and> determine_action score data = (decision resp, tasks)
          \<and> risk_score resp = py_round score 4
          \<and> address resp = wallet_address data
          \<and> monitored_asset resp = asset_id data"
  using assms
  by (auto simp: analyze_wallet_def analyze_wallet_body_def Let_def
      split: prod.splits sum.splits)


lemma alert_gnn_score: "run_inference alert_gnn [f, f'] = Inr (9 / 10)"
  by (simp add: run_inference_def forward_def relu_def dropout_def log_softmax_def alert_gnn_def
      index_def Let_def exp_diff)


lemma alert_resolve: "resolve_wallet alert_state ''STU_0'' = Inr 3"
  by (simp add: resolve_wallet_def alert_state_def known_labels_def index_def)


lemma py_round_nine_tenths: "py_round (9 / 10) 4 = 9 / 10"
  by (simp add: py_round_def round_half_even_def)

lemma student_call_result:
  "get_wallet_transactions lcg_lib 0 ''STU_0'' 12345 =
     ([\<lparr>sender = ''GOVT_SCHOLARSHIP_DEPT'', receiver = ''STU_0'', amount = 1058\<rparr>], 37)"
  unfolding get_wallet_transactions_def Let_def
  by (simp add: lcg_lib_def comprehension_step)


lemma alert_model: "model alert_state = alert_gnn"
  by (simp add: alert_state_def)


lemma alert_run:
  "fst (analyze_wallet lcg_lib alert_state 0 \<lparr>wallet_address = ''STU_0'', asset_id = 12345\<rparr>)
     = Inr (\<lparr>address = ''STU_0'', risk_score = 9 / 10, decision = ''FRAUD_HIGH'',
             monitored_asset = 12345\<rparr>, [Trigger_blockchain_freeze ''STU_0'' 12345])"
  by (simp add: analyze_wallet_def analyze_wallet_body_def student_call_result alert_resolve
      alert_model alert_gnn_score determine_action_def py_round_nine_tenths)

text \<open>
  C4. The decision is a function of the risk score alone, with strict thresholds. On every
  successful request, with \<open>score\<close> the value the inference step returns: above 0.85 the
  decision is \<^verbatim>\<open>FRAUD_HIGH\<close> and the freeze task is scheduled; above 0.60 and up to 0.85 it
  is \<^verbatim>\<open>SUSPICIOUS_REVIEW\<close>; up to 0.60 it is \<^verbatim>\<open>CLEAR\<close>. In particular 0.85 gives
  \<^verbatim>\<open>SUSPICIOUS_REVIEW\<close> and 0.60 gives \<^verbatim>\<open>CLEAR\<close>, and a task is scheduled only above 0.85.
\<close>

theorem decision_policy:
  assumes ok: "fst (analyze_wallet L st g data) = Inr (resp, tasks)"
    and score: "run_inference (model st)
        [wallet_features (fst (get_wallet_transactions L g (wallet_address data) (asset_id data)))
           (wallet_address data), dummy_features] = Inr score"
  shows "(score > 0.85 \<longrightarrow> decision resp = ''FRAUD_HIGH''
           \<and> tasks = [Trigger_blockchain_freeze (wallet_address data) (asset_id data)])
     \<and> (0.60 < score \<and> score \<le> 0.85 \<longrightarrow> decision resp = ''SUSPICIOUS_REVIEW'' \<and> tasks = [])
     \<and> (score \<le> 0.60 \<longrightarrow> decision resp = ''CLEAR'' \<and> tasks = [])
     \<and> (score = 0.85 \<longrightarrow> decision resp = ''SUSPICIOUS_REVIEW'')
     \<and> (score = 0.60 \<longrightarrow> decision resp = ''CLEAR'')
     \<and> (tasks \<noteq> [] \<longrightarrow> score > 0.85)"
proof -
  from analyze_wallet_success [OF ok] score
  have d: "determine_action score data = (decision resp, tasks)" by auto
  then show ?thesis by (auto simp: determine_action_def split: if_splits)
qed

theorem decision_policy_witness:
  "fst (analyze_wallet lcg_lib alert_state 0 \<lparr>wallet_address = ''STU_0'', asset_id = 12345\<rparr>)
     = Inr (\<lparr>address = ''STU_0'', risk_score = 9 / 10, decision = ''FRAUD_HIGH'',
             monitored_asset = 12345\<rparr>, [Trigger_blockchain_freeze ''STU_0'' 12345])
   \<and> run_inference (model alert_state)
        [wallet_features (fst (get_wallet_transactions lcg_lib 0 ''STU_0'' 12345)) ''STU_0'',
         dummy_features] = Inr (9 / 10)
   \<and> (9 / 10 :: real) > 0.85
   \<and> decision \<lparr>address = ''STU_0'', risk_score = 9 / 10, decision = ''FRAUD_HIGH'',
             monitored_asset = 12345\<rparr> = ''FRAUD_HIGH''"
proof -
  have s: "run_inference (model alert_state)
        [wallet_features (fst (get_wallet_transactions lcg_lib 0
            (wallet_address \<lparr>wallet_address = ''STU_0'', asset_id = 12345\<rparr>)
            (asset_id \<lparr>wallet_address = ''STU_0'', asset_id = 12345\<rparr>)))
           (wallet_address \<lparr>wallet_address = ''STU_0'', asset_id = 12345\<rparr>),
         dummy_features] = Inr (9 / 10)"
    by (simp add: alert_model alert_gnn_score)
  from decision_policy [OF alert_run s] alert_run s show ?thesis by simp
qed



end
